theory Spec2Isabelle
  imports Main
begin

section \<open>The reindex submission script\<close>

text \<open>
  The development embeds the operator script that slices a date range into windows and
  submits one reindex job per window (\<^verbatim>\<open>main\<close> and the top-level promise chain), and
  the entry point of the database seeding (\<^verbatim>\<open>seedDatabase\<close>).

  Dates are ECMAScript time values: integer milliseconds since the epoch. The model
  keeps them as unbounded integers, so the time-value range of ECMAScript
  (\<open>\<plusminus>8.64e15\<close> ms) and the rounding of doubles are outside it.
\<close>

subsection \<open>Dates\<close>

type_synonym date = int

definition msPerMinute :: int where
  "msPerMinute = 60000"

definition msPerDay :: int where
  "msPerDay = 86400000"

text \<open>\<^verbatim>\<open>Date.prototype.getUTCMinutes\<close>: the minute field of the time value.\<close>

definition getUTCMinutes :: "date \<Rightarrow> int" where
  "getUTCMinutes t = (t div msPerMinute) mod 60"

text \<open>
  \<^verbatim>\<open>Date.prototype.setUTCMinutes(min)\<close>: the minute field is replaced by \<open>min\<close>, the
  other fields are kept, and a value outside \<open>0..59\<close> carries over into the hours and days.
\<close>

definition setUTCMinutes :: "date \<Rightarrow> int \<Rightarrow> date" where
  "setUTCMinutes t m = t - getUTCMinutes t * msPerMinute + m * msPerMinute"

text \<open>Decimal digits, for timestamps and job ids.\<close>

definition digit :: "int \<Rightarrow> char" where
  "digit d = ''0123456789'' ! nat (d mod 10)"

definition pad2 :: "int \<Rightarrow> string" where
  "pad2 n = [digit (n div 10), digit n]"

definition pad3 :: "int \<Rightarrow> string" where
  "pad3 n = [digit (n div 100), digit (n div 10), digit n]"

definition pad4 :: "int \<Rightarrow> string" where
  "pad4 n = [digit (n div 1000), digit (n div 100), digit (n div 10), digit n]"

definition pad6 :: "int \<Rightarrow> string" where
  "pad6 n = [digit (n div 100000), digit (n div 10000)] @ pad4 n"

text \<open>
  The proleptic Gregorian date (year, month, day) of a day number counted from
  1970-01-01, as the \<^verbatim>\<open>YearFromTime\<close>, \<^verbatim>\<open>MonthFromTime\<close> and \<^verbatim>\<open>DateFromTime\<close> of
  ECMAScript give it. The computation counts days from 0000-03-01 in 400-year eras.
\<close>

definition civil_from_days :: "int \<Rightarrow> int \<times> int \<times> int" where
  "civil_from_days z =
     (let z' = z + 719468;
          era = z' div 146097;
          doe = z' mod 146097;
          yoe = (doe - doe div 1460 + doe div 36524 - doe div 146096) div 365;
          doy = doe - (365 * yoe + yoe div 4 - yoe div 100);
          mp = (5 * doy + 2) div 153;
          d = doy - (153 * mp + 2) div 5 + 1;
          m = (if mp < 10 then mp + 3 else mp - 9);
          y = yoe + era * 400
      in (if m \<le> 2 then y + 1 else y, m, d))"

text \<open>
  \<^verbatim>\<open>Date.prototype.toISOString\<close>: \<^verbatim>\<open>YYYY-MM-DDTHH:mm:ss.sssZ\<close>, with a sign and six
  digits for a year outside \<open>0..9999\<close>.
\<close>

definition isoYear :: "int \<Rightarrow> string" where
  "isoYear y =
     (if 0 \<le> y \<and> y \<le> 9999 then pad4 y
      else if y < 0 then ''-'' @ pad6 (- y)
      else ''+'' @ pad6 y)"

definition toISOString :: "date \<Rightarrow> string" where
  "toISOString t =
     (let (y, m, d) = civil_from_days (t div msPerDay);
          ms = t mod msPerDay
      in isoYear y @ ''-'' @ pad2 m @ ''-'' @ pad2 d @ ''T''
         @ pad2 (ms div 3600000) @ '':'' @ pad2 (ms div 60000 mod 60) @ '':''
         @ pad2 (ms div 1000 mod 60) @ ''.'' @ pad3 (ms mod 1000) @ ''Z'')"

subsection \<open>Strings\<close>

text \<open>
  \<^verbatim>\<open>String.prototype.split(',')\<close>: the pieces between the commas; the result always
  has at least one element (the empty string splits into one empty piece).
\<close>

fun split_comma :: "string \<Rightarrow> string list" where
  "split_comma [] = [[]]"
| "split_comma (c # cs) =
     (if c = CHR '','' then [] # split_comma cs
      else (case split_comma cs of
              [] \<Rightarrow> [[c]]
            | p # ps \<Rightarrow> (c # p) # ps))"

text \<open>\<^verbatim>\<open>Array.prototype.join(sep)\<close>.\<close>

fun join :: "string \<Rightarrow> string list \<Rightarrow> string" where
  "join sep [] = []"
| "join sep [x] = x"
| "join sep (x # y # ys) = x @ sep @ join sep (y # ys)"

subsection \<open>Search requests\<close>

datatype operator = GREATER_THAN_OR_EQUALS | LESS_THAN

record filter =
  f_code :: string
  f_operator :: operator
  f_value :: string

text \<open>
  \<^verbatim>\<open>resourceType\<close> is \<^verbatim>\<open>resourceTypes[0]\<close>, which is \<^verbatim>\<open>undefined\<close> (\<open>None\<close>) for
  an empty array.
\<close>

record search_request =
  resourceType :: "string option"
  filters :: "filter list"

text \<open>
  Lines 47-48 of \<^verbatim>\<open>main\<close>: the end of the window that starts at \<open>startDate\<close>. Without
  a start date \<open>endDate\<close> keeps the value it has.
\<close>

definition nextEnd :: "int \<Rightarrow> date \<Rightarrow> date option \<Rightarrow> date option \<Rightarrow> date option" where
  "nextEnd intervalMinutes beforeDate startDate endDate =
     (case startDate of
        Some s \<Rightarrow> Some (min (setUTCMinutes s (getUTCMinutes s + intervalMinutes)) beforeDate)
      | None \<Rightarrow> endDate)"

text \<open>Lines 45 and 51-63: the query parts and the filters of one window.\<close>

definition urlQueryParts :: "date option \<Rightarrow> date option \<Rightarrow> string list" where
  "urlQueryParts startDate endDate =
     (case startDate of Some s \<Rightarrow> [''_lastUpdated=ge'' @ toISOString s] | None \<Rightarrow> [])
     @ (case endDate of Some e \<Rightarrow> [''_lastUpdated=lt'' @ toISOString e] | None \<Rightarrow> [])"

definition searchRequest :: "string list \<Rightarrow> date option \<Rightarrow> date option \<Rightarrow> search_request" where
  "searchRequest resourceTypes startDate endDate =
     \<lparr> resourceType = (case resourceTypes of [] \<Rightarrow> None | t # _ \<Rightarrow> Some t),
       filters =
         (case startDate of
            Some s \<Rightarrow> [\<lparr> f_code = ''_lastUpdated'', f_operator = GREATER_THAN_OR_EQUALS,
                         f_value = toISOString s \<rparr>]
          | None \<Rightarrow> [])
         @ (case endDate of
              Some e \<Rightarrow> [\<lparr> f_code = ''_lastUpdated'', f_operator = LESS_THAN,
                           f_value = toISOString e \<rparr>]
            | None \<Rightarrow> []) \<rparr>"

text \<open>Line 64: the request url of one window.\<close>

definition url :: "string list \<Rightarrow> date option \<Rightarrow> date option \<Rightarrow> string" where
  "url resourceTypes startDate endDate =
     join '','' resourceTypes @ ''?'' @ join ''&'' (urlQueryParts startDate endDate)"

subsection \<open>Errors and outcomes\<close>

datatype error =
    TypeError
  | LoadConfigError
  | InitAppServicesError
  | Error string
  | CreateError
  | EnqueueError
  | NotFound
  | InvalidTransition
  | QueueNotEmpty
  | ConnectError

text \<open>
  The state of a promise: \<open>Pending\<close> is the value of a run that has not settled with
  the fuel it was given.
\<close>

datatype outcome = Resolved | Rejected error | Pending

subsection \<open>The world of the script\<close>

datatype job_status = ACCEPTED | IN_PROGRESS | COMPLETED | FAILED | CANCELLED

text \<open>An Async Job; its id is its position in the store.\<close>

record async_job =
  aj_status :: job_status
  aj_requestUrl :: string
  aj_error :: "error option"

text \<open>The data of an enqueued reindex job: the arguments of \<^verbatim>\<open>addReindexJob\<close>.\<close>

record job_descriptor =
  jd_id :: string
  jd_resourceTypes :: "string list"
  jd_asyncJobId :: nat
  jd_searchRequest :: search_request
  jd_maxResourceVersion :: int

record queue =
  paused :: bool
  waiting :: "job_descriptor list"
  active :: "job_descriptor list"
  jobCounter :: nat

datatype out_line = OutStrings "string list" | OutText string

datatype err_line = ErrValue error | ErrJson error

record world =
  stdout :: "out_line list"
  stderr :: "err_line list"
  queueRegistry :: "string \<rightharpoonup> queue"
  asyncJobs :: "async_job list"

text \<open>
  What the script is given and what its collaborators answer: the command line argument,
  whether the configuration loads and the services start, and which Async Job creations
  and enqueues succeed.
\<close>

record env =
  argv2 :: "string option"
  loadConfig_ok :: bool
  initAppServices_ok :: bool
  create_ok :: "string \<Rightarrow> bool"
  enqueue_ok :: "search_request \<Rightarrow> bool"

text \<open>
  The constants of the script (lines 12-13 and 38-42), as parameters; \<open>source_params\<close>
  are the values the source gives them.
\<close>

record params =
  DO_OBLITERATE :: bool
  DO_ADD_JOBS :: bool
  maxResourceVersion :: int
  beforeDate :: date
  startDate0 :: "date option"
  intervalMinutes :: int

definition source_params :: params where
  "source_params =
     \<lparr> DO_OBLITERATE = False, DO_ADD_JOBS = False, maxResourceVersion = 5,
       beforeDate = 1748736000000, startDate0 = Some 1744675200000,
       intervalMinutes = 24 * 60 * 30 \<rparr>"

definition console_log :: "out_line \<Rightarrow> world \<Rightarrow> world" where
  "console_log l w = w\<lparr>stdout := stdout w @ [l]\<rparr>"

definition console_error :: "err_line \<Rightarrow> world \<Rightarrow> world" where
  "console_error l w = w\<lparr>stderr := stderr w @ [l]\<rparr>"

fun dec :: "nat \<Rightarrow> string" where
  "dec n = (if n < 10 then [digit (int n)] else dec (n div 10) @ [digit (int n)])"

subsection \<open>The queue\<close>

text \<open>
  Modelled from the spec: the queue object behind \<^verbatim>\<open>queueRegistry.get\<close> and its
  lifecycle operations (section 4.3); their code is not among the sources.
  \<^verbatim>\<open>resume\<close> turns delivery on, \<^verbatim>\<open>clean(0, 0, 'active')\<close> removes the entries claimed
  by a worker, \<^verbatim>\<open>drain(true)\<close> removes the pending entries, and \<^verbatim>\<open>obliterate\<close> deletes
  all queue state and fails with \<open>QueueNotEmpty\<close> while an entry is in flight.
\<close>

definition q_resume :: "queue \<Rightarrow> queue" where
  "q_resume q = q\<lparr>paused := False\<rparr>"

definition q_clean_active :: "queue \<Rightarrow> queue" where
  "q_clean_active q = q\<lparr>active := []\<rparr>"

definition q_drain :: "queue \<Rightarrow> queue" where
  "q_drain q = q\<lparr>waiting := []\<rparr>"

definition q_obliterate :: "queue \<Rightarrow> error + queue" where
  "q_obliterate q =
     (if active q \<noteq> [] then Inl QueueNotEmpty
      else Inr \<lparr> paused = False, waiting = [], active = [], jobCounter = 0 \<rparr>)"

definition set_queue :: "queue \<Rightarrow> world \<Rightarrow> world" where
  "set_queue q w = w\<lparr>queueRegistry := (queueRegistry w)(''ReindexQueue'' \<mapsto> q)\<rparr>"

subsection \<open>The Async Job executor and the enqueue\<close>

text \<open>
  Modelled from the spec: \<^verbatim>\<open>AsyncJobExecutor.init\<close> (section 4.2, \<open>create\<close>), whose code
  is not among the sources. It persists one Async Job in state \<open>ACCEPTED\<close> with the
  given request url and fails when the store refuses the creation.
\<close>

definition exec_init :: "env \<Rightarrow> string \<Rightarrow> world \<Rightarrow> (error + nat) \<times> world" where
  "exec_init E u w =
     (if create_ok E u
      then (Inr (length (asyncJobs w)),
            w\<lparr>asyncJobs := asyncJobs w
                 @ [\<lparr> aj_status = ACCEPTED, aj_requestUrl = u, aj_error = None \<rparr>]\<rparr>)
      else (Inl CreateError, w))"

text \<open>The terminal states of an Async Job (section 3 of the spec).\<close>

definition terminal :: "job_status \<Rightarrow> bool" where
  "terminal s = (s = COMPLETED \<or> s = FAILED \<or> s = CANCELLED)"

text \<open>
  Modelled from the spec: \<open>markFailed\<close> of the Async Job tracker (section 4.2), whose
  code is not among the sources. It fails with \<open>NotFound\<close> for an unknown id and with
  \<open>InvalidTransition\<close> for a job in a terminal state.
\<close>

definition markFailed :: "nat \<Rightarrow> error \<Rightarrow> world \<Rightarrow> (error + unit) \<times> world" where
  "markFailed i e w =
     (if length (asyncJobs w) \<le> i then (Inl NotFound, w)
      else if terminal (aj_status (asyncJobs w ! i)) then (Inl InvalidTransition, w)
      else (Inr (),
            w\<lparr>asyncJobs := (asyncJobs w)
                 [i := (asyncJobs w ! i)\<lparr>aj_status := FAILED, aj_error := Some e\<rparr>]\<rparr>))"

text \<open>
  Modelled from the spec: \<^verbatim>\<open>AsyncJobExecutor.run\<close> (section 4.4, step 5), whose code is
  not among the sources. It runs the callback on the Async Job; when the callback fails
  the job is marked \<open>FAILED\<close> with the error, which is not thrown again.
\<close>

definition exec_run ::
  "(nat \<Rightarrow> world \<Rightarrow> (error + unit) \<times> world) \<Rightarrow> nat \<Rightarrow> world \<Rightarrow> (error + unit) \<times> world" where
  "exec_run callback asyncJob w =
     (case callback asyncJob w of
        (Inr u, w') \<Rightarrow> (Inr (), w')
      | (Inl e, w') \<Rightarrow> markFailed asyncJob e w')"

text \<open>
  Modelled from the spec: \<^verbatim>\<open>addReindexJob\<close> (section 4.4, step 4, and \<open>enqueue\<close> of
  section 4.3), whose code is not among the sources. It appends a Job Descriptor made of
  its arguments to the pending entries of the queue named \<^verbatim>\<open>ReindexQueue\<close>, whether the
  queue is paused or not, and returns it; the queue numbers its jobs.
\<close>

definition addReindexJob ::
  "env \<Rightarrow> string list \<Rightarrow> nat \<Rightarrow> search_request \<Rightarrow> int \<Rightarrow> world
     \<Rightarrow> (error + job_descriptor) \<times> world" where
  "addReindexJob E resourceTypes asyncJob sr maxVersion w =
     (case queueRegistry w ''ReindexQueue'' of
        None \<Rightarrow> (Inl EnqueueError, w)
      | Some q \<Rightarrow>
          if enqueue_ok E sr
          then (let job = \<lparr> jd_id = dec (Suc (jobCounter q)), jd_resourceTypes = resourceTypes,
                             jd_asyncJobId = asyncJob, jd_searchRequest = sr,
                             jd_maxResourceVersion = maxVersion \<rparr>
                in (Inr job,
                    set_queue (q\<lparr>waiting := waiting q @ [job],
                                 jobCounter := Suc (jobCounter q)\<rparr>) w))
          else (Inl EnqueueError, w))"

subsection \<open>The script\<close>

text \<open>
  Lines 67-76: the submission of one window. \<^verbatim>\<open>requestContextStore.run\<close> only supplies
  the ambient system context to the calls inside it.
\<close>

definition submit ::
  "env \<Rightarrow> params \<Rightarrow> string list \<Rightarrow> string \<Rightarrow> search_request \<Rightarrow> world
     \<Rightarrow> (error + unit) \<times> world" where
  "submit E P resourceTypes u sr w =
     (case exec_init E u w of
        (Inl e, w1) \<Rightarrow> (Inl e, w1)
      | (Inr j, w1) \<Rightarrow>
          exec_run
            (\<lambda>asyncJob w2.
               case addReindexJob E resourceTypes asyncJob sr (maxResourceVersion P) w2 of
                 (Inl e, w3) \<Rightarrow> (Inl e, w3)
               | (Inr job, w3) \<Rightarrow>
                   (Inr (), console_log (OutText (''Added job '' @ jd_id job)) w3))
            j w1)"

text \<open>
  Lines 44-79: the \<^verbatim>\<open>do ... while\<close> loop. Each unit of fuel pays for one iteration; a
  run that needs more iterations than it has fuel is \<open>Pending\<close>. A \<^verbatim>\<open>Date\<close> object is
  truthy, so the loop goes on exactly when the new start date exists and lies before
  \<open>beforeDate\<close>.
\<close>

fun loop ::
  "nat \<Rightarrow> env \<Rightarrow> params \<Rightarrow> string list \<Rightarrow> date option \<Rightarrow> date option \<Rightarrow> world
     \<Rightarrow> outcome \<times> world" where
  "loop 0 E P resourceTypes startDate endDate w = (Pending, w)"
| "loop (Suc n) E P resourceTypes startDate endDate w =
     (let endDate' = nextEnd (intervalMinutes P) (beforeDate P) startDate endDate;
          sr = searchRequest resourceTypes startDate endDate';
          u = url resourceTypes startDate endDate';
          w1 = console_log (OutText u) w
      in case (if DO_ADD_JOBS P then submit E P resourceTypes u sr w1 else (Inr (), w1)) of
           (Inl e, w2) \<Rightarrow> (Rejected e, w2)
         | (Inr x, w2) \<Rightarrow>
             (if (case endDate' of Some s \<Rightarrow> s < beforeDate P | None \<Rightarrow> False)
              then loop n E P resourceTypes endDate' endDate' w2
              else (Resolved, w2)))"

text \<open>
  Lines 15-80: \<^verbatim>\<open>main\<close>. The registry of the given world is the registry as
  \<^verbatim>\<open>initAppServices\<close> leaves it. The queue object is shared with the registry, so its
  lifecycle operations are written back under its name.
\<close>

definition obliterate_queue :: "queue \<Rightarrow> world \<Rightarrow> (error + unit) \<times> world" where
  "obliterate_queue q w =
     (let w1 = console_log (OutText ''obliterating queue...'') w;
          q1 = q_clean_active q;
          q2 = q_drain q1
      in case q_obliterate q2 of
           Inl e \<Rightarrow> (Inl e, set_queue q2 w1)
         | Inr q3 \<Rightarrow> (Inr (), set_queue q3 w1))"

definition main :: "nat \<Rightarrow> env \<Rightarrow> params \<Rightarrow> world \<Rightarrow> outcome \<times> world" where
  "main fuel E P w =
     (case argv2 E of
        None \<Rightarrow> (Rejected TypeError, w)
      | Some arg \<Rightarrow>
          (let resourceTypes = split_comma arg;
               w1 = console_log (OutStrings resourceTypes) w
           in if \<not> loadConfig_ok E then (Rejected LoadConfigError, w1)
              else if \<not> initAppServices_ok E then (Rejected InitAppServicesError, w1)
              else (case queueRegistry w1 ''ReindexQueue'' of
                      None \<Rightarrow> (Rejected (Error ''Could not find queue''), w1)
                    | Some q \<Rightarrow>
                        (case (if DO_OBLITERATE P then obliterate_queue q w1
                               else (Inr (), set_queue (q_resume q) w1)) of
                           (Inl e, w2) \<Rightarrow> (Rejected e, w2)
                         | (Inr x, w2) \<Rightarrow>
                             loop fuel E P resourceTypes (startDate0 P) None w2))))"

text \<open>
  Lines 82-87: the promise chain around \<^verbatim>\<open>main\<close>. The handler of \<^verbatim>\<open>catch\<close> logs the
  error twice on stderr and returns, so the chain is fulfilled whenever \<^verbatim>\<open>main\<close> settles.
\<close>

definition script :: "nat \<Rightarrow> env \<Rightarrow> params \<Rightarrow> world \<Rightarrow> outcome \<times> world" where
  "script fuel E P w =
     (case main fuel E P w of
        (Resolved, w') \<Rightarrow> (Resolved, console_log (OutText ''Done'') w')
      | (Rejected err, w') \<Rightarrow>
          (Resolved, console_error (ErrJson err) (console_error (ErrValue err) w'))
      | (Pending, w') \<Rightarrow> (Pending, w'))"

text \<open>
  The exit status of the process: 1 when the promise chain ends rejected with no handler,
  and otherwise the value of \<^verbatim>\<open>process.exitCode\<close>, which the script never assigns, so 0.
  A run that never settles has no exit status.
\<close>

definition exitStatus :: "outcome \<Rightarrow> int option" where
  "exitStatus out = (case out of Resolved \<Rightarrow> Some 0 | Rejected e \<Rightarrow> Some 1 | Pending \<Rightarrow> None)"

subsection \<open>The windows of the loop\<close>

type_synonym window = "date option \<times> date option"

text \<open>
  The partitioning part of the loop alone (lines 44-49 and 78-79): the pairs of
  \<^verbatim>\<open>startDate\<close> and \<^verbatim>\<open>endDate\<close> that the iterations build their queries from, in
  order. The result is \<open>None\<close> when the fuel does not reach the end of the loop.
\<close>

fun windows :: "nat \<Rightarrow> int \<Rightarrow> date \<Rightarrow> date option \<Rightarrow> date option \<Rightarrow> window list option" where
  "windows 0 stepMinutes stop startDate endDate = None"
| "windows (Suc n) stepMinutes stop startDate endDate =
     (let endDate' = nextEnd stepMinutes stop startDate endDate
      in if (case endDate' of Some s \<Rightarrow> s < stop | None \<Rightarrow> False)
         then map_option ((#) (startDate, endDate'))
                (windows n stepMinutes stop endDate' endDate')
         else Some [(startDate, endDate')])"


text \<open>The body of the loop, run over a given list of windows.\<close>

fun run_windows :: "env \<Rightarrow> params \<Rightarrow> string list \<Rightarrow> window list \<Rightarrow> world \<Rightarrow> outcome \<times> world" where
  "run_windows E P rts [] w = (Resolved, w)"
| "run_windows E P rts ((a, b) # ws) w =
     (let sr = searchRequest rts a b;
          u = url rts a b;
          w1 = console_log (OutText u) w
      in case (if DO_ADD_JOBS P then submit E P rts u sr w1 else (Inr (), w1)) of
           (Inl e, w2) \<Rightarrow> (Rejected e, w2)
         | (Inr x, w2) \<Rightarrow> run_windows E P rts ws w2)"

text \<open>
  What a submission run leaves behind, window by window: the Async Job of a window, the
  queue entries of the windows whose enqueue succeeds (\<open>i\<close> is the id of the next Async
  Job, \<open>c\<close> the job counter of the queue), and the lines on stdout.
\<close>

definition creatable :: "env \<Rightarrow> string list \<Rightarrow> window \<Rightarrow> bool" where
  "creatable E rts win = create_ok E (url rts (fst win) (snd win))"

definition enqueuable :: "env \<Rightarrow> string list \<Rightarrow> window \<Rightarrow> bool" where
  "enqueuable E rts win = enqueue_ok E (searchRequest rts (fst win) (snd win))"

definition job_of :: "env \<Rightarrow> string list \<Rightarrow> window \<Rightarrow> async_job" where
  "job_of E rts win =
     (if enqueuable E rts win
      then \<lparr> aj_status = ACCEPTED, aj_requestUrl = url rts (fst win) (snd win), aj_error = None \<rparr>
      else \<lparr> aj_status = FAILED, aj_requestUrl = url rts (fst win) (snd win),
             aj_error = Some EnqueueError \<rparr>)"

fun entries ::
  "env \<Rightarrow> params \<Rightarrow> string list \<Rightarrow> nat \<Rightarrow> nat \<Rightarrow> window list \<Rightarrow> job_descriptor list" where
  "entries E P rts i c [] = []"
| "entries E P rts i c (win # ws) =
     (if enqueuable E rts win
      then \<lparr> jd_id = dec (Suc c), jd_resourceTypes = rts, jd_asyncJobId = i,
             jd_searchRequest = searchRequest rts (fst win) (snd win),
             jd_maxResourceVersion = maxResourceVersion P \<rparr>
           # entries E P rts (Suc i) (Suc c) ws
      else entries E P rts (Suc i) c ws)"

fun log_lines :: "env \<Rightarrow> string list \<Rightarrow> nat \<Rightarrow> window list \<Rightarrow> out_line list" where
  "log_lines E rts c [] = []"
| "log_lines E rts c (win # ws) =
     OutText (url rts (fst win) (snd win))
     # (if enqueuable E rts win
        then OutText (''Added job '' @ dec (Suc c)) # log_lines E rts (Suc c) ws
        else log_lines E rts c ws)"

text \<open>The world after the queue lifecycle operations of lines 27-34.\<close>

definition fresh_queue :: queue where
  "fresh_queue = \<lparr> paused = False, waiting = [], active = [], jobCounter = 0 \<rparr>"

definition prepared_queue :: "params \<Rightarrow> queue \<Rightarrow> queue" where
  "prepared_queue P q = (if DO_OBLITERATE P then fresh_queue else q_resume q)"

definition ready :: "params \<Rightarrow> string \<Rightarrow> queue \<Rightarrow> world \<Rightarrow> world" where
  "ready P arg q w =
     (let w1 = console_log (OutStrings (split_comma arg)) w
      in set_queue (prepared_queue P q)
           (if DO_OBLITERATE P then console_log (OutText ''obliterating queue...'') w1 else w1))"

subsection \<open>Example inputs\<close>

definition example_env :: env where
  "example_env =
     \<lparr> argv2 = Some ''Patient,Observation'', loadConfig_ok = True, initAppServices_ok = True,
       create_ok = (\<lambda>u. True), enqueue_ok = (\<lambda>sr. True) \<rparr>"

definition example_job :: job_descriptor where
  "example_job =
     \<lparr> jd_id = ''7'', jd_resourceTypes = [''Patient''], jd_asyncJobId = 0,
       jd_searchRequest = \<lparr> resourceType = Some ''Patient'', filters = [] \<rparr>,
       jd_maxResourceVersion = 5 \<rparr>"

definition example_queue :: queue where
  "example_queue = \<lparr> paused = True, waiting = [example_job], active = [], jobCounter = 7 \<rparr>"

definition example_world :: world where
  "example_world =
     \<lparr> stdout = [], stderr = [], queueRegistry = [''ReindexQueue'' \<mapsto> example_queue],
       asyncJobs = [\<lparr> aj_status = ACCEPTED, aj_requestUrl = ''Patient?'', aj_error = None \<rparr>] \<rparr>"

text \<open>Collaborators with a queue that refuses the first window of the source's range.\<close>

definition failing_env :: env where
  "failing_env =
     example_env\<lparr>enqueue_ok :=
        (\<lambda>sr. map f_value (filters sr)
               \<noteq> [''2025-04-15T00:00:00.000Z'', ''2025-05-15T00:00:00.000Z''])\<rparr>"

text \<open>The constants of the source with the submission gate on.\<close>

definition submit_params :: params where
  "submit_params = source_params\<lparr>DO_ADD_JOBS := True\<rparr>"

definition fresh_world :: world where
  "fresh_world =
     \<lparr> stdout = [], stderr = [], queueRegistry = [''ReindexQueue'' \<mapsto> fresh_queue],
       asyncJobs = [] \<rparr>"

definition empty_world :: world where
  "empty_world = \<lparr> stdout = [], stderr = [], queueRegistry = Map.empty, asyncJobs = [] \<rparr>"

section \<open>The database seeding\<close>

text \<open>
  \<^verbatim>\<open>seedDatabase\<close> of \<^verbatim>\<open>packages/server/src/seed.ts\<close>. A database is the list of its
  resources, together with the messages of \<^verbatim>\<open>globalLogger.info\<close> (their metadata, the
  durations, is left out).
\<close>

datatype json =
    JNull
  | JString string
  | JBool bool
  | JArray "json list"
  | JObject "(string \<times> json) list"

record resource =
  r_resourceType :: string
  r_id :: "string option"
  r_fields :: "(string \<times> json) list"

record repo =
  resources :: "resource list"
  logged :: "string list"

text \<open>
  What the sources do not contain, as parameters: whether the pool gives a connection,
  the id the store gives to a new resource, the password hash, the id of the R4 project,
  \<^verbatim>\<open>createReference\<close>, and the three rebuilding steps, which may fail.
\<close>

record seed_env =
  connect_ok :: bool
  generateId :: "resource list \<Rightarrow> string"
  bcryptHashPassword :: "string \<Rightarrow> string"
  r4ProjectId :: string
  createReference :: "resource \<Rightarrow> json"
  rebuildR4StructureDefinitions :: "resource list \<Rightarrow> error + resource list"
  rebuildR4ValueSets :: "resource list \<Rightarrow> error + resource list"
  rebuildR4SearchParameters :: "resource list \<Rightarrow> error + resource list"

definition info :: "string \<Rightarrow> repo \<Rightarrow> repo" where
  "info msg st = st\<lparr>logged := logged st @ [msg]\<rparr>"

text \<open>
  Modelled from the spec: the operations of the repository (section 6, the record store
  interfaces), whose code is not among the sources. \<^verbatim>\<open>createResource\<close> stores the resource
  under a new id, \<^verbatim>\<open>updateResource\<close> replaces the resource of the same type and id or
  stores it when there is none, \<^verbatim>\<open>searchOne\<close> returns the first resource of a type, and
  \<^verbatim>\<open>withTransaction\<close> undoes the writes of a callback that fails.
\<close>

definition createResource :: "seed_env \<Rightarrow> resource \<Rightarrow> repo \<Rightarrow> resource \<times> repo" where
  "createResource S r st =
     (let r' = r\<lparr>r_id := Some (generateId S (resources st))\<rparr>
      in (r', st\<lparr>resources := resources st @ [r']\<rparr>))"

definition same_resource :: "resource \<Rightarrow> resource \<Rightarrow> bool" where
  "same_resource r x = (r_resourceType x = r_resourceType r \<and> r_id x = r_id r)"

definition updateResource :: "resource \<Rightarrow> repo \<Rightarrow> resource \<times> repo" where
  "updateResource r st =
     (if list_ex (same_resource r) (resources st)
      then (r, st\<lparr>resources := map (\<lambda>x. if same_resource r x then r else x) (resources st)\<rparr>)
      else (r, st\<lparr>resources := resources st @ [r]\<rparr>))"

definition searchOne :: "string \<Rightarrow> repo \<Rightarrow> resource option" where
  "searchOne rt st = find (\<lambda>r. r_resourceType r = rt) (resources st)"

definition withTransaction ::
  "(repo \<Rightarrow> (error + unit) \<times> repo) \<Rightarrow> repo \<Rightarrow> (error + unit) \<times> repo" where
  "withTransaction callback st =
     (case callback st of
        (Inl e, st') \<Rightarrow> (Inl e, st'\<lparr>resources := resources st\<rparr>)
      | (Inr x, st') \<Rightarrow> (Inr x, st'))"

text \<open>Lines 117-119.\<close>

definition isSeeded :: "repo \<Rightarrow> resource option" where
  "isSeeded st = searchOne ''User'' st"

text \<open>Lines 58-110.\<close>

definition id_json :: "resource \<Rightarrow> json" where
  "id_json r = (case r_id r of Some i \<Rightarrow> JString i | None \<Rightarrow> JNull)"

definition createSuperAdmin :: "seed_env \<Rightarrow> repo \<Rightarrow> repo" where
  "createSuperAdmin S st =
     (let firstName = ''Medplum'';
          lastName = ''Admin'';
          email = ''admin@example.com'';
          passwordHash = bcryptHashPassword S ''medplum_admin'';
          (superAdmin, st1) = createResource S
            \<lparr> r_resourceType = ''User'', r_id = None,
              r_fields = [(''firstName'', JString firstName), (''lastName'', JString lastName),
                          (''email'', JString email), (''passwordHash'', JString passwordHash)] \<rparr> st;
          (superAdminProject, st2) = createResource S
            \<lparr> r_resourceType = ''Project'', r_id = None,
              r_fields = [(''name'', JString ''Super Admin''),
                          (''owner'', createReference S superAdmin),
                          (''superAdmin'', JBool True), (''strictMode'', JBool True)] \<rparr> st1;
          (r4Project, st3) = updateResource
            \<lparr> r_resourceType = ''Project'', r_id = Some (r4ProjectId S),
              r_fields = [(''name'', JString ''FHIR R4'')] \<rparr> st2;
          (practitioner, st4) = createResource S
            \<lparr> r_resourceType = ''Practitioner'', r_id = None,
              r_fields = [(''meta'', JObject [(''project'', id_json superAdminProject)]),
                          (''name'', JArray [JObject [(''given'', JArray [JString firstName]),
                                                      (''family'', JString lastName)]]),
                          (''telecom'', JArray [JObject [(''system'', JString ''email''),
                                                         (''use'', JString ''work''),
                                                         (''value'', JString email)]])] \<rparr> st3;
          (membership, st5) = createResource S
            \<lparr> r_resourceType = ''ProjectMembership'', r_id = None,
              r_fields = [(''project'', createReference S superAdminProject),
                          (''user'', createReference S superAdmin),
                          (''profile'', createReference S practitioner),
                          (''admin'', JBool True)] \<rparr> st4
      in st5)"

text \<open>One rebuilding step of lines 41-54, between its two log messages.\<close>

definition rebuild ::
  "string \<Rightarrow> string \<Rightarrow> (resource list \<Rightarrow> error + resource list) \<Rightarrow> repo
     \<Rightarrow> (error + unit) \<times> repo" where
  "rebuild startMsg endMsg step st =
     (let st1 = info startMsg st
      in case step (resources st1) of
           Inl e \<Rightarrow> (Inl e, st1)
         | Inr rs \<Rightarrow> (Inr (), info endMsg (st1\<lparr>resources := rs\<rparr>)))"

text \<open>Lines 29-56.\<close>

definition seedDatabase :: "seed_env \<Rightarrow> repo \<Rightarrow> (error + unit) \<times> repo" where
  "seedDatabase S st =
     (if \<not> connect_ok S then (Inl ConnectError, st)
      else if isSeeded st \<noteq> None then (Inr (), info ''Already seeded'' st)
      else withTransaction
        (\<lambda>st0.
           case rebuild ''Building structure definitions...''
                  ''Finished building structure definitions''
                  (rebuildR4StructureDefinitions S) (createSuperAdmin S st0) of
             (Inl e, st1) \<Rightarrow> (Inl e, st1)
           | (Inr x, st1) \<Rightarrow>
               (case rebuild ''Building value sets...'' ''Finished building value sets''
                       (rebuildR4ValueSets S) st1 of
                  (Inl e, st2) \<Rightarrow> (Inl e, st2)
                | (Inr y, st2) \<Rightarrow>
                    rebuild ''Building search parameters...''
                      ''Finished building search parameters''
                      (rebuildR4SearchParameters S) st2))
        st)"

definition example_seed_env :: seed_env where
  "example_seed_env =
     \<lparr> connect_ok = True,
       generateId = (\<lambda>rs. ''id-'' @ dec (length rs)),
       bcryptHashPassword = (\<lambda>p. ''hash:'' @ p),
       r4ProjectId = ''r4'',
       createReference = (\<lambda>r. JObject [(''reference'', id_json r)]),
       rebuildR4StructureDefinitions = (\<lambda>rs. Inr rs),
       rebuildR4ValueSets = (\<lambda>rs. Inr rs),
       rebuildR4SearchParameters = (\<lambda>rs. Inr rs) \<rparr>"

definition empty_repo :: repo where
  "empty_repo = \<lparr> resources = [], logged = [] \<rparr>"

definition seeded_repo :: repo where
  "seeded_repo =
     \<lparr> resources = [\<lparr> r_resourceType = ''User'', r_id = Some ''u1'', r_fields = [] \<rparr>],
       logged = [] \<rparr>"

text \<open>A rebuilding step that removes no user.\<close>

definition keeps_users :: "(resource list \<Rightarrow> error + resource list) \<Rightarrow> bool" where
  "keeps_users step =
     (\<forall>rs rs'. (\<exists>r \<in> set rs. r_resourceType r = ''User'') \<longrightarrow> step rs = Inr rs' \<longrightarrow>
        (\<exists>r \<in> set rs'. r_resourceType r = ''User''))"

section \<open>Properties of the script\<close>

declare dec.simps [simp del]

subsection \<open>Dates and windows\<close>

lemma setUTCMinutes_add: "setUTCMinutes t (getUTCMinutes t + k) = t + k * msPerMinute"
  by (simp add: setUTCMinutes_def algebra_simps)

lemma nextEnd_Some:
  "nextEnd step before (Some s) e = Some (min (s + step * msPerMinute) before)"
  by (simp add: nextEnd_def setUTCMinutes_add)










subsection \<open>The loop and the script\<close>

lemma loop_run_windows:
  "windows n (intervalMinutes P) (beforeDate P) s e = Some ws \<Longrightarrow>
   loop n E P rts s e w = run_windows E P rts ws w"
proof (induction n arbitrary: s e w ws)
  case 0
  then show ?case by simp
next
  case (Suc n)
  let ?e = "nextEnd (intervalMinutes P) (beforeDate P) s e"
  show ?case
  proof (cases "case ?e of Some s \<Rightarrow> s < beforeDate P | None \<Rightarrow> False")
    case True
    with Suc.prems obtain ws' where ws':
      "windows n (intervalMinutes P) (beforeDate P) ?e ?e = Some ws'" "ws = (s, ?e) # ws'"
      by (auto simp: Let_def)
    show ?thesis using True Suc.IH[OF ws'(1)] ws'(2)
      by (simp add: Let_def split: prod.splits sum.splits)
  next
    case False
    with Suc.prems have "ws = [(s, ?e)]" by (auto simp: Let_def)
    then show ?thesis using False
      by (simp add: Let_def split: prod.splits sum.splits)
  qed
qed


lemma main_ready:
  assumes "argv2 E = Some arg" and "loadConfig_ok E" and "initAppServices_ok E"
    and "queueRegistry w ''ReindexQueue'' = Some q"
  shows "main n E P w = loop n E P (split_comma arg) (startDate0 P) None (ready P arg q w)"
  using assms
  by (simp add: main_def ready_def obliterate_queue_def prepared_queue_def fresh_queue_def
      q_obliterate_def q_clean_active_def q_drain_def console_log_def set_queue_def Let_def)

lemma ready_fields:
  "asyncJobs (ready P arg q w) = asyncJobs w"
  "stderr (ready P arg q w) = stderr w"
  "queueRegistry (ready P arg q w) = (queueRegistry w)(''ReindexQueue'' \<mapsto> prepared_queue P q)"
  "stdout (ready P arg q w) = stdout w @ [OutStrings (split_comma arg)]
     @ (if DO_OBLITERATE P then [OutText ''obliterating queue...''] else [])"
  by (simp_all add: ready_def console_log_def set_queue_def Let_def)

lemma submit_effect:
  assumes "queueRegistry w ''ReindexQueue'' = Some q"
  shows "submit E P rts u sr w =
     (if create_ok E u then
        (if enqueue_ok E sr then
           (Inr (),
            w\<lparr>stdout := stdout w @ [OutText (''Added job '' @ dec (Suc (jobCounter q)))],
              queueRegistry := (queueRegistry w)(''ReindexQueue'' \<mapsto>
                 q\<lparr>waiting := waiting q @
                     [\<lparr> jd_id = dec (Suc (jobCounter q)), jd_resourceTypes = rts,
                        jd_asyncJobId = length (asyncJobs w), jd_searchRequest = sr,
                        jd_maxResourceVersion = maxResourceVersion P \<rparr>],
                   jobCounter := Suc (jobCounter q)\<rparr>),
              asyncJobs := asyncJobs w
                 @ [\<lparr> aj_status = ACCEPTED, aj_requestUrl = u, aj_error = None \<rparr>]\<rparr>)
         else (Inr (),
               w\<lparr>asyncJobs := asyncJobs w
                 @ [\<lparr> aj_status = FAILED, aj_requestUrl = u, aj_error = Some EnqueueError \<rparr>]\<rparr>))
      else (Inl CreateError, w))"
  using assms
  by (simp add: submit_def exec_init_def exec_run_def addReindexJob_def markFailed_def
      set_queue_def console_log_def terminal_def Let_def nth_append)

lemma run_windows_submit:
  assumes "DO_ADD_JOBS P"
  shows "queueRegistry w ''ReindexQueue'' = Some q \<Longrightarrow>
    run_windows E P rts ws w = (out, w') \<Longrightarrow>
    out = (if list_all (creatable E rts) ws then Resolved else Rejected CreateError)
    \<and> asyncJobs w' = asyncJobs w @ map (job_of E rts) (takeWhile (creatable E rts) ws)
    \<and> queueRegistry w' ''ReindexQueue'' = Some
         (q\<lparr>waiting := waiting q
              @ entries E P rts (length (asyncJobs w)) (jobCounter q) (takeWhile (creatable E rts) ws),
           jobCounter := jobCounter q
              + length (entries E P rts (length (asyncJobs w)) (jobCounter q)
                  (takeWhile (creatable E rts) ws))\<rparr>)
    \<and> (\<forall>k. k \<noteq> ''ReindexQueue'' \<longrightarrow> queueRegistry w' k = queueRegistry w k)
    \<and> stderr w' = stderr w
    \<and> stdout w' = stdout w @ log_lines E rts (jobCounter q) (takeWhile (creatable E rts) ws)
         @ (case dropWhile (creatable E rts) ws of [] \<Rightarrow> []
            | win # _ \<Rightarrow> [OutText (url rts (fst win) (snd win))])"
proof (induction ws arbitrary: w q)
  case Nil
  then show ?case by (auto simp: fun_upd_idem_iff)
next
  case (Cons win ws)
  obtain a b where win: "win = (a, b)" by (cases win)
  let ?u = "url rts a b" and ?sr = "searchRequest rts a b"
  let ?w1 = "console_log (OutText ?u) w"
  have q1: "queueRegistry ?w1 ''ReindexQueue'' = Some q"
    using Cons.prems(1) by (simp add: console_log_def)
  note eff = submit_effect[OF q1, of E P rts ?u ?sr]
  show ?case
  proof (cases "create_ok E ?u")
    case False
    then have "run_windows E P rts (win # ws) w = (Rejected CreateError, ?w1)"
      using assms eff by (simp add: win Let_def)
    with Cons.prems(2) have "out = Rejected CreateError" "w' = ?w1" by simp_all
    then show ?thesis using False Cons.prems(1)
      by (auto simp: win creatable_def console_log_def fun_upd_idem_iff)
  next
    case True
    show ?thesis
    proof (cases "enqueue_ok E ?sr")
      case ok: True
      let ?q2 = "q\<lparr>waiting := waiting q @
                     [\<lparr> jd_id = dec (Suc (jobCounter q)), jd_resourceTypes = rts,
                        jd_asyncJobId = length (asyncJobs w), jd_searchRequest = ?sr,
                        jd_maxResourceVersion = maxResourceVersion P \<rparr>],
                   jobCounter := Suc (jobCounter q)\<rparr>"
      let ?w2 = "?w1\<lparr>stdout := stdout ?w1 @ [OutText (''Added job '' @ dec (Suc (jobCounter q)))],
              queueRegistry := (queueRegistry ?w1)(''ReindexQueue'' \<mapsto> ?q2),
              asyncJobs := asyncJobs ?w1
                 @ [\<lparr> aj_status = ACCEPTED, aj_requestUrl = ?u, aj_error = None \<rparr>]\<rparr>"
      have run: "run_windows E P rts (win # ws) w = run_windows E P rts ws ?w2"
        using assms eff True ok by (simp add: win Let_def console_log_def)
      have q2: "queueRegistry ?w2 ''ReindexQueue'' = Some ?q2" by simp
      have "run_windows E P rts ws ?w2 = (out, w')" using run Cons.prems(2) by simp
      note IH = Cons.IH[OF q2 this]
      have c: "creatable E rts win" "enqueuable E rts win"
        using True ok by (simp_all add: win creatable_def enqueuable_def)
      have len: "length (asyncJobs ?w2) = Suc (length (asyncJobs w))"
        by (simp add: console_log_def)
      show ?thesis using IH c unfolding len
        by (simp add: job_of_def console_log_def win)
    next
      case bad: False
      let ?w2 = "?w1\<lparr>asyncJobs := asyncJobs ?w1
                 @ [\<lparr> aj_status = FAILED, aj_requestUrl = ?u, aj_error = Some EnqueueError \<rparr>]\<rparr>"
      have run: "run_windows E P rts (win # ws) w = run_windows E P rts ws ?w2"
        using assms eff True bad by (simp add: win Let_def console_log_def)
      have q2: "queueRegistry ?w2 ''ReindexQueue'' = Some q" using q1 by simp
      have "run_windows E P rts ws ?w2 = (out, w')" using run Cons.prems(2) by simp
      note IH = Cons.IH[OF q2 this]
      have c: "creatable E rts win" "\<not> enqueuable E rts win"
        using True bad by (simp_all add: win creatable_def enqueuable_def)
      have len: "length (asyncJobs ?w2) = Suc (length (asyncJobs w))"
        by (simp add: console_log_def)
      show ?thesis using IH c unfolding len
        by (simp add: job_of_def console_log_def win)
    qed
  qed
qed

lemma run_windows_dry:
  "\<not> DO_ADD_JOBS P \<Longrightarrow>
   run_windows E P rts ws w
     = (Resolved, w\<lparr>stdout := stdout w @ map (\<lambda>(a, b). OutText (url rts a b)) ws\<rparr>)"
  by (induction ws arbitrary: w) (auto simp: console_log_def Let_def)

lemma loop_dry_frame:
  "\<not> DO_ADD_JOBS P \<Longrightarrow> loop n E P rts s e w = (out, w') \<Longrightarrow>
   asyncJobs w' = asyncJobs w \<and> queueRegistry w' = queueRegistry w \<and> stderr w' = stderr w"
proof (induction n arbitrary: s e w)
  case 0
  then show ?case by simp
next
  case (Suc n)
  then show ?case
    by (auto simp: Let_def console_log_def split: if_splits)
qed

lemma loop_dry_never_rejects:
  "\<not> DO_ADD_JOBS P \<Longrightarrow> loop n E P rts s e w = (out, w') \<Longrightarrow> out \<noteq> Rejected err"
proof (induction n arbitrary: s e w)
  case 0
  then show ?case by auto
next
  case (Suc n)
  then show ?case
    by (auto simp: Let_def split: if_splits)
qed


lemma windows_stall:
  "step \<le> 0 \<Longrightarrow> s < before \<Longrightarrow> windows n step before (Some s) e = None"
proof (induction n arbitrary: s e)
  case 0
  then show ?case by simp
next
  case (Suc n)
  let ?s' = "s + step * msPerMinute"
  have "?s' \<le> s" using Suc.prems(1) by (simp add: msPerMinute_def mult_le_0_iff)
  then have lt: "?s' < before" using Suc.prems(2) by simp
  then have "nextEnd step before (Some s) e = Some ?s'" by (simp add: nextEnd_Some min_def)
  then show ?case using lt Suc.IH[OF Suc.prems(1) lt] by (simp add: Let_def)
qed

lemma main_submit:
  assumes "argv2 E = Some arg" and "loadConfig_ok E" and "initAppServices_ok E"
    and "queueRegistry w ''ReindexQueue'' = Some q"
    and "DO_ADD_JOBS P"
    and "windows n (intervalMinutes P) (beforeDate P) (startDate0 P) None = Some ws"
  shows "fst (main n E P w)
       = (if list_all (creatable E (split_comma arg)) ws then Resolved else Rejected CreateError)"
    and "asyncJobs (snd (main n E P w))
       = asyncJobs w @ map (job_of E (split_comma arg)) (takeWhile (creatable E (split_comma arg)) ws)"
    and "queueRegistry (snd (main n E P w)) ''ReindexQueue''
       = Some ((prepared_queue P q)\<lparr>waiting := waiting (prepared_queue P q)
              @ entries E P (split_comma arg) (length (asyncJobs w)) (jobCounter (prepared_queue P q))
                  (takeWhile (creatable E (split_comma arg)) ws),
            jobCounter := jobCounter (prepared_queue P q)
              + length (entries E P (split_comma arg) (length (asyncJobs w))
                  (jobCounter (prepared_queue P q))
                  (takeWhile (creatable E (split_comma arg)) ws))\<rparr>)"
    and "stderr (snd (main n E P w)) = stderr w"
proof -
  let ?rts = "split_comma arg"
  let ?r = "ready P arg q w"
  have m: "main n E P w = run_windows E P ?rts ws ?r"
    using main_ready[OF assms(1-4)] loop_run_windows[OF assms(6)] by simp
  obtain out w' where r: "run_windows E P ?rts ws ?r = (out, w')"
    by (cases "run_windows E P ?rts ws ?r")
  have q: "queueRegistry ?r ''ReindexQueue'' = Some (prepared_queue P q)"
    by (simp add: ready_fields)
  note s = run_windows_submit[OF assms(5) q r]
  show "fst (main n E P w)
       = (if list_all (creatable E ?rts) ws then Resolved else Rejected CreateError)"
    using s m r by simp
  show "asyncJobs (snd (main n E P w))
       = asyncJobs w @ map (job_of E ?rts) (takeWhile (creatable E ?rts) ws)"
    using s m r by (simp add: ready_fields)
  show "queueRegistry (snd (main n E P w)) ''ReindexQueue''
       = Some ((prepared_queue P q)\<lparr>waiting := waiting (prepared_queue P q)
              @ entries E P ?rts (length (asyncJobs w)) (jobCounter (prepared_queue P q))
                  (takeWhile (creatable E ?rts) ws),
            jobCounter := jobCounter (prepared_queue P q)
              + length (entries E P ?rts (length (asyncJobs w))
                  (jobCounter (prepared_queue P q))
                  (takeWhile (creatable E ?rts) ws))\<rparr>)"
    using s m r by (simp add: ready_fields)
  show "stderr (snd (main n E P w)) = stderr w"
    using s m r by (simp add: ready_fields)
qed

lemma entries_requests:
  "map jd_searchRequest (entries E P rts i c ws)
     = map (\<lambda>win. searchRequest rts (fst win) (snd win)) (filter (enqueuable E rts) ws)"
  by (induction ws arbitrary: i c) simp_all

lemma entries_fields:
  "d \<in> set (entries E P rts i c ws) \<Longrightarrow>
   jd_resourceTypes d = rts \<and> jd_maxResourceVersion d = maxResourceVersion P
   \<and> (\<exists>win \<in> set ws. jd_searchRequest d = searchRequest rts (fst win) (snd win))"
  by (induction ws arbitrary: i c) (auto split: if_splits)

lemma entries_count:
  "length (filter (\<lambda>d. jd_asyncJobId d = j) (entries E P rts i c ws))
     = (if i \<le> j \<and> j < i + length ws \<and> enqueuable E rts (ws ! (j - i)) then 1 else 0)"
proof (induction ws arbitrary: i c)
  case Nil
  then show ?case by simp
next
  case (Cons win ws)
  let ?c = "if enqueuable E rts win then Suc c else c"
  let ?tail = "length (filter (\<lambda>d. jd_asyncJobId d = j) (entries E P rts (Suc i) ?c ws))"
  have tail: "?tail = (if Suc i \<le> j \<and> j < Suc i + length ws
      \<and> enqueuable E rts (ws ! (j - Suc i)) then 1 else 0)"
    by (rule Cons.IH)
  show ?case
  proof (cases "j = i")
    case True
    then have "?tail = 0" using tail by simp
    then have "filter (\<lambda>d. jd_asyncJobId d = j) (entries E P rts (Suc i) ?c ws) = []"
      by simp
    then show ?thesis using True by (cases "enqueuable E rts win") simp_all
  next
    case False
    then have head: "length (filter (\<lambda>d. jd_asyncJobId d = j) (entries E P rts i c (win # ws)))
        = ?tail" by simp
    show ?thesis
    proof (cases "i < j")
      case True
      then have "(win # ws) ! (j - i) = ws ! (j - Suc i)" by (simp add: nth_Cons')
      moreover have "(i \<le> j \<and> j < i + length (win # ws))
          = (Suc i \<le> j \<and> j < Suc i + length ws)"
        using True by auto
      ultimately show ?thesis unfolding head tail by presburger
    next
      case False
      then have "\<not> i \<le> j" using \<open>j \<noteq> i\<close> by simp
      then show ?thesis unfolding head tail by simp
    qed
  qed
qed

lemma windows_ascending:
  "windows n step before (Some s) e = Some ws \<Longrightarrow>
   sorted_wrt (\<lambda>p q. \<exists>x y. fst p = Some x \<and> fst q = Some y \<and> x < y) ws
   \<and> (\<forall>p \<in> set ws. \<exists>x. fst p = Some x \<and> s \<le> x
        \<and> snd p = Some (min (x + step * msPerMinute) before))"
proof (induction n arbitrary: s e ws)
  case 0
  then show ?case by simp
next
  case (Suc n)
  let ?s' = "s + step * msPerMinute"
  let ?e = "min ?s' before"
  have ne: "nextEnd step before (Some s) e = Some ?e" by (simp add: nextEnd_Some)
  show ?case
  proof (cases "?s' < before")
    case False
    then have "\<not> ?e < before" by simp
    then have "ws = [(Some s, Some ?e)]"
      using Suc.prems by (simp add: ne Let_def del: min_less_iff_conj)
    then show ?thesis by simp
  next
    case True
    then have e: "?e = ?s'" by simp
    have "windows (Suc n) step before (Some s) e
        = map_option ((#) (Some s, Some ?s')) (windows n step before (Some ?s') (Some ?s'))"
      using True by (simp add: ne e Let_def)
    with Suc.prems have "map_option ((#) (Some s, Some ?s'))
        (windows n step before (Some ?s') (Some ?s')) = Some ws"
      by simp
    then obtain ws' where ws': "windows n step before (Some ?s') (Some ?s') = Some ws'"
      "ws = (Some s, Some ?s') # ws'"
      by auto
    have pos: "0 < step"
    proof (rule ccontr)
      assume "\<not> 0 < step"
      then have "step \<le> 0" by simp
      from windows_stall[OF this True] ws'(1) show False by simp
    qed
    then have lt: "s < ?s'" by (simp add: msPerMinute_def)
    from Suc.IH[OF ws'(1)]
    have IH1: "sorted_wrt (\<lambda>p q. \<exists>x y. fst p = Some x \<and> fst q = Some y \<and> x < y) ws'"
      and IH2: "\<forall>p \<in> set ws'. \<exists>x. fst p = Some x \<and> ?s' \<le> x
        \<and> snd p = Some (min (x + step * msPerMinute) before)"
      by blast+
    have a: "\<forall>p \<in> set ws'. \<exists>x y. fst (Some s, Some ?s') = Some x \<and> fst p = Some y \<and> x < y"
      using IH2 lt by fastforce
    have b: "\<forall>p \<in> set ws. \<exists>x. fst p = Some x \<and> s \<le> x
        \<and> snd p = Some (min (x + step * msPerMinute) before)"
      using IH2 lt e ws'(2) by fastforce
    show ?thesis using IH1 a b ws'(2) by simp
  qed
qed

lemma windows_no_start:
  "windows n step before None None = Some ws \<Longrightarrow> ws = [(None, None)]"
  by (cases n) (simp_all add: nextEnd_def Let_def)

lemma windows_sorted:
  assumes "windows n step before s None = Some ws"
  shows "sorted_wrt (\<lambda>p q. \<exists>x y. fst p = Some x \<and> fst q = Some y \<and> x < y) ws"
proof (cases s)
  case None
  then show ?thesis using windows_no_start assms by fastforce
next
  case (Some x)
  then show ?thesis using windows_ascending assms by blast
qed

lemma split_comma_nonempty: "split_comma s \<noteq> []"
  by (induction s) (auto split: list.splits)

lemma join_split_comma: "join '','' (split_comma s) = s"
proof (induction s)
  case Nil
  then show ?case by simp
next
  case (Cons c cs)
  show ?case
  proof (cases "c = CHR '',''")
    case True
    then show ?thesis using Cons split_comma_nonempty[of cs]
      by (cases "split_comma cs") simp_all
  next
    case False
    then show ?thesis using Cons split_comma_nonempty[of cs]
      by (cases "split_comma cs"; cases "tl (split_comma cs)") auto
  qed
qed

lemma split_comma_first:
  "split_comma s = t # ts \<Longrightarrow> t = takeWhile (\<lambda>c. c \<noteq> CHR '','') s"
  by (induction s arbitrary: t ts)
    (auto split: if_splits list.splits simp: split_comma_nonempty)

subsection \<open>Partitioning\<close>






subsection \<open>The submission gate\<close>

text \<open>
  C3, as the claim states it, fails: the queue lifecycle of lines 27-34 is not behind the
  submission gate. With the gate off, as in the source, a paused queue is resumed; and
  with the obliterate gate on, a pending entry of the queue is deleted.
\<close>

theorem dry_run_counterexample:
  "\<not> DO_ADD_JOBS source_params
   \<and> map_option paused (queueRegistry example_world ''ReindexQueue'') = Some True
   \<and> map_option paused
        (queueRegistry (snd (script 2 example_env source_params example_world)) ''ReindexQueue'')
       = Some False
   \<and> \<not> DO_ADD_JOBS (source_params\<lparr>DO_OBLITERATE := True\<rparr>)
   \<and> map_option waiting (queueRegistry example_world ''ReindexQueue'') = Some [example_job]
   \<and> map_option waiting
        (queueRegistry
           (snd (script 2 example_env (source_params\<lparr>DO_OBLITERATE := True\<rparr>) example_world))
           ''ReindexQueue'')
       = Some []"
  by code_simp

text \<open>
  C3, amended. With the submission gate off and the setup succeeding, a run creates no
  Async Job and enqueues no Job Descriptor whatever its fuel: the Async Jobs are those of
  the start, and the queue is the one of the start after its lifecycle operations
  (resumed, or emptied when the obliterate gate is on), which do not depend on the
  submission gate. When the loop ends, stdout holds the resource types, the notice of
  the obliteration if any, one line per window (its request url) and \<^verbatim>\<open>Done\<close>.
\<close>

theorem dry_run_effects:
  assumes "\<not> DO_ADD_JOBS P"
    and "argv2 E = Some arg" and "loadConfig_ok E" and "initAppServices_ok E"
    and "queueRegistry w ''ReindexQueue'' = Some q"
  shows "asyncJobs (snd (script n E P w)) = asyncJobs w
     \<and> queueRegistry (snd (script n E P w))
         = (queueRegistry w)(''ReindexQueue'' \<mapsto>
              (if DO_OBLITERATE P then fresh_queue else q_resume q))
     \<and> stderr (snd (script n E P w)) = stderr w
     \<and> (\<forall>ws. windows n (intervalMinutes P) (beforeDate P) (startDate0 P) None = Some ws \<longrightarrow>
          fst (script n E P w) = Resolved
          \<and> stdout (snd (script n E P w))
              = stdout w @ [OutStrings (split_comma arg)]
                @ (if DO_OBLITERATE P then [OutText ''obliterating queue...''] else [])
                @ map (\<lambda>(a, b). OutText (url (split_comma arg) a b)) ws
                @ [OutText ''Done''])"
proof -
  let ?rts = "split_comma arg"
  let ?r = "ready P arg q w"
  have m: "main n E P w = loop n E P ?rts (startDate0 P) None ?r"
    using assms(2-5) by (rule main_ready)
  obtain out w' where l: "loop n E P ?rts (startDate0 P) None ?r = (out, w')"
    by (cases "loop n E P ?rts (startDate0 P) None ?r")
  note fr = loop_dry_frame[OF assms(1) l]
  have nrej: "\<And>e. out \<noteq> Rejected e"
    using loop_dry_never_rejects[OF assms(1) l] by simp
  have sc: "asyncJobs (snd (script n E P w)) = asyncJobs w'
      \<and> queueRegistry (snd (script n E P w)) = queueRegistry w'
      \<and> stderr (snd (script n E P w)) = stderr w'"
  proof (cases out)
    case (Rejected e)
    then show ?thesis using nrej by blast
  qed (use m l in \<open>simp_all add: script_def console_log_def\<close>)
  have a: "asyncJobs (snd (script n E P w)) = asyncJobs w"
    using sc fr by (simp add: ready_fields)
  have b: "queueRegistry (snd (script n E P w))
         = (queueRegistry w)(''ReindexQueue'' \<mapsto>
              (if DO_OBLITERATE P then fresh_queue else q_resume q))"
    using sc fr by (simp add: ready_fields prepared_queue_def)
  have c: "stderr (snd (script n E P w)) = stderr w"
    using sc fr by (simp add: ready_fields)
  have d: "\<forall>ws. windows n (intervalMinutes P) (beforeDate P) (startDate0 P) None = Some ws \<longrightarrow>
          fst (script n E P w) = Resolved
          \<and> stdout (snd (script n E P w))
              = stdout w @ [OutStrings ?rts]
                @ (if DO_OBLITERATE P then [OutText ''obliterating queue...''] else [])
                @ map (\<lambda>(a, b). OutText (url ?rts a b)) ws
                @ [OutText ''Done'']"
  proof (intro allI impI)
    fix ws assume "windows n (intervalMinutes P) (beforeDate P) (startDate0 P) None = Some ws"
    then have "main n E P w = run_windows E P ?rts ws ?r"
      using m loop_run_windows by simp
    then have "main n E P w
        = (Resolved, ?r\<lparr>stdout := stdout ?r @ map (\<lambda>(a, b). OutText (url ?rts a b)) ws\<rparr>)"
      using run_windows_dry[OF assms(1)] by simp
    then show "fst (script n E P w) = Resolved
          \<and> stdout (snd (script n E P w))
              = stdout w @ [OutStrings ?rts]
                @ (if DO_OBLITERATE P then [OutText ''obliterating queue...''] else [])
                @ map (\<lambda>(a, b). OutText (url ?rts a b)) ws
                @ [OutText ''Done'']"
      by (simp add: script_def console_log_def ready_fields)
  qed
  show ?thesis using a b c d by blast
qed

theorem dry_run_effects_witness:
  "\<not> DO_ADD_JOBS source_params
   \<and> argv2 example_env = Some ''Patient,Observation''
   \<and> loadConfig_ok example_env \<and> initAppServices_ok example_env
   \<and> queueRegistry example_world ''ReindexQueue'' = Some example_queue
   \<and> stdout (snd (script 2 example_env source_params example_world))
       = [OutStrings [''Patient'', ''Observation''],
          OutText (''Patient,Observation?_lastUpdated=ge2025-04-15T00:00:00.000Z''
                   @ ''&_lastUpdated=lt2025-05-15T00:00:00.000Z''),
          OutText (''Patient,Observation?_lastUpdated=ge2025-05-15T00:00:00.000Z''
                   @ ''&_lastUpdated=lt2025-06-01T00:00:00.000Z''),
          OutText ''Done'']
   \<and> asyncJobs (snd (script 2 example_env source_params example_world))
       = asyncJobs example_world
   \<and> queueRegistry (snd (script 2 example_env source_params example_world))
       = (queueRegistry example_world)(''ReindexQueue'' \<mapsto> q_resume example_queue)"
proof -
  have h1: "\<not> DO_ADD_JOBS source_params" by (simp add: source_params_def)
  have h2: "argv2 example_env = Some ''Patient,Observation''" by (simp add: example_env_def)
  have h3: "loadConfig_ok example_env" by (simp add: example_env_def)
  have h4: "initAppServices_ok example_env" by (simp add: example_env_def)
  have h5: "queueRegistry example_world ''ReindexQueue'' = Some example_queue"
    by (simp add: example_world_def)
  have ev: "stdout (snd (script 2 example_env source_params example_world))
       = [OutStrings [''Patient'', ''Observation''],
          OutText (''Patient,Observation?_lastUpdated=ge2025-04-15T00:00:00.000Z''
                   @ ''&_lastUpdated=lt2025-05-15T00:00:00.000Z''),
          OutText (''Patient,Observation?_lastUpdated=ge2025-05-15T00:00:00.000Z''
                   @ ''&_lastUpdated=lt2025-06-01T00:00:00.000Z''),
          OutText ''Done'']"
    by code_simp
  have no: "\<not> DO_OBLITERATE source_params" by (simp add: source_params_def)
  note c = dry_run_effects[OF h1 h2 h3 h4 h5, of 2]
  have c1: "asyncJobs (snd (script 2 example_env source_params example_world))
       = asyncJobs example_world"
    using c by blast
  have c2: "queueRegistry (snd (script 2 example_env source_params example_world))
       = (queueRegistry example_world)(''ReindexQueue'' \<mapsto> q_resume example_queue)"
    using c no by simp
  show ?thesis
    by (intro conjI h1 h2 h3 h4 h5 ev c1 c2)
qed

subsection \<open>Setup errors\<close>

text \<open>
  C5, as the claim states it, fails: when the queue is not in the registry, \<^verbatim>\<open>main\<close>
  rejects, the handler of \<^verbatim>\<open>catch\<close> logs the error, and the exit status is 0.
\<close>

theorem setup_error_counterexample:
  "queueRegistry empty_world ''ReindexQueue'' = None
   \<and> fst (main 2 example_env source_params empty_world) = Rejected (Error ''Could not find queue'')
   \<and> exitStatus (fst (script 2 example_env source_params empty_world)) = Some 0"
  by code_simp

text \<open>
  C5, amended. When the argument is missing, the configuration does not load, the
  services do not start or the queue is not in the registry, \<^verbatim>\<open>main\<close> rejects with the
  error of the first of these, with the registry and the Async Jobs untouched. The
  script writes the error twice on stderr, prints nothing after the resource types on
  stdout (no \<^verbatim>\<open>Done\<close>), and ends fulfilled, so that the exit status is 0.
\<close>

theorem setup_error_aborts:
  assumes "argv2 E = None \<or> \<not> loadConfig_ok E \<or> \<not> initAppServices_ok E
           \<or> queueRegistry w ''ReindexQueue'' = None"
  shows "\<exists>err. fst (main n E P w) = Rejected err
     \<and> err = (if argv2 E = None then TypeError
              else if \<not> loadConfig_ok E then LoadConfigError
              else if \<not> initAppServices_ok E then InitAppServicesError
              else Error ''Could not find queue'')
     \<and> queueRegistry (snd (main n E P w)) = queueRegistry w
     \<and> asyncJobs (snd (main n E P w)) = asyncJobs w
     \<and> fst (script n E P w) = Resolved
     \<and> queueRegistry (snd (script n E P w)) = queueRegistry w
     \<and> asyncJobs (snd (script n E P w)) = asyncJobs w
     \<and> stderr (snd (script n E P w)) = stderr w @ [ErrValue err, ErrJson err]
     \<and> stdout (snd (script n E P w))
         = stdout w @ (case argv2 E of None \<Rightarrow> [] | Some arg \<Rightarrow> [OutStrings (split_comma arg)])
     \<and> exitStatus (fst (script n E P w)) = Some 0"
proof (cases "argv2 E")
  case None
  then show ?thesis
    by (simp add: main_def script_def console_error_def exitStatus_def)
next
  case (Some arg)
  then show ?thesis using assms
    by (auto simp: main_def script_def console_error_def console_log_def exitStatus_def Let_def)
qed

theorem setup_error_aborts_witness:
  "queueRegistry empty_world ''ReindexQueue'' = None
   \<and> (\<exists>err. fst (main 2 example_env source_params empty_world) = Rejected err
     \<and> err = (if argv2 example_env = None then TypeError
              else if \<not> loadConfig_ok example_env then LoadConfigError
              else if \<not> initAppServices_ok example_env then InitAppServicesError
              else Error ''Could not find queue'')
     \<and> queueRegistry (snd (main 2 example_env source_params empty_world))
          = queueRegistry empty_world
     \<and> asyncJobs (snd (main 2 example_env source_params empty_world)) = asyncJobs empty_world
     \<and> fst (script 2 example_env source_params empty_world) = Resolved
     \<and> queueRegistry (snd (script 2 example_env source_params empty_world))
          = queueRegistry empty_world
     \<and> asyncJobs (snd (script 2 example_env source_params empty_world)) = asyncJobs empty_world
     \<and> stderr (snd (script 2 example_env source_params empty_world))
          = stderr empty_world @ [ErrValue err, ErrJson err]
     \<and> stdout (snd (script 2 example_env source_params empty_world))
         = stdout empty_world
           @ (case argv2 example_env of None \<Rightarrow> [] | Some arg \<Rightarrow> [OutStrings (split_comma arg)])
     \<and> exitStatus (fst (script 2 example_env source_params empty_world)) = Some 0)"
proof -
  have h: "queueRegistry empty_world ''ReindexQueue'' = None" by (simp add: empty_world_def)
  then have h': "argv2 example_env = None \<or> \<not> loadConfig_ok example_env
      \<or> \<not> initAppServices_ok example_env \<or> queueRegistry empty_world ''ReindexQueue'' = None"
    by simp
  show ?thesis
    by (intro conjI h setup_error_aborts[OF h'])
qed

subsection \<open>The step\<close>




subsection \<open>Submission\<close>

text \<open>
  C2. In a run with the submission gate on whose setup succeeds and whose loop ends, a
  failing enqueue never makes \<^verbatim>\<open>main\<close> reject, and when every creation of an Async
  Job succeeds \<^verbatim>\<open>main\<close> is fulfilled with one Async Job per window. The run appends Async
  Jobs to the store and entries to the queue such that the Async Job of a window whose
  enqueue succeeds is \<open>ACCEPTED\<close> and referenced by exactly one new entry, and the Async
  Job of a window whose enqueue fails is \<open>FAILED\<close> with the enqueue error and referenced
  by no new entry. The executor and the enqueue are modelled from the spec.
\<close>

theorem enqueue_failure_compensated:
  assumes "argv2 E = Some arg" and "loadConfig_ok E" and "initAppServices_ok E"
    and "queueRegistry w ''ReindexQueue'' = Some q"
    and "DO_ADD_JOBS P"
    and "windows n (intervalMinutes P) (beforeDate P) (startDate0 P) None = Some ws"
  shows "fst (main n E P w) \<noteq> Rejected EnqueueError
     \<and> ((\<forall>u. create_ok E u) \<longrightarrow> fst (main n E P w) = Resolved)
     \<and> (\<exists>q' js ds. queueRegistry (snd (main n E P w)) ''ReindexQueue'' = Some q'
          \<and> asyncJobs (snd (main n E P w)) = asyncJobs w @ js
          \<and> waiting q' = waiting (prepared_queue P q) @ ds
          \<and> length js \<le> length ws
          \<and> ((\<forall>u. create_ok E u) \<longrightarrow> length js = length ws)
          \<and> (\<forall>k<length js.
                aj_requestUrl (js ! k) = url (split_comma arg) (fst (ws ! k)) (snd (ws ! k))
                \<and> (if enqueue_ok E (searchRequest (split_comma arg) (fst (ws ! k)) (snd (ws ! k)))
                    then aj_status (js ! k) = ACCEPTED
                         \<and> length (filter (\<lambda>d. jd_asyncJobId d = length (asyncJobs w) + k) ds) = 1
                    else aj_status (js ! k) = FAILED
                         \<and> aj_error (js ! k) = Some EnqueueError
                         \<and> filter (\<lambda>d. jd_asyncJobId d = length (asyncJobs w) + k) ds = [])))"
proof -
  let ?rts = "split_comma arg"
  let ?dn = "takeWhile (creatable E ?rts) ws"
  let ?js = "map (job_of E ?rts) ?dn"
  let ?q0 = "prepared_queue P q"
  let ?ds = "entries E P ?rts (length (asyncJobs w)) (jobCounter ?q0) ?dn"
  let ?q' = "?q0\<lparr>waiting := waiting ?q0 @ ?ds, jobCounter := jobCounter ?q0 + length ?ds\<rparr>"
  note ms = main_submit[OF assms]
  have a: "fst (main n E P w) \<noteq> Rejected EnqueueError" using ms(1) by simp
  have all: "(\<forall>u. create_ok E u) \<Longrightarrow> list_all (creatable E ?rts) ws"
    by (simp add: list_all_iff creatable_def)
  have b: "(\<forall>u. create_ok E u) \<longrightarrow> fst (main n E P w) = Resolved"
    using ms(1) all by simp
  have len: "length ?js \<le> length ws" by (simp add: length_takeWhile_le)
  have len': "(\<forall>u. create_ok E u) \<longrightarrow> length ?js = length ws"
  proof
    assume "\<forall>u. create_ok E u"
    then have "?dn = ws" using all by (simp add: list_all_iff)
    then show "length ?js = length ws" by (simp only: length_map)
  qed
  have each: "\<forall>k<length ?js.
       aj_requestUrl (?js ! k) = url ?rts (fst (ws ! k)) (snd (ws ! k))
       \<and> (if enqueue_ok E (searchRequest ?rts (fst (ws ! k)) (snd (ws ! k)))
           then aj_status (?js ! k) = ACCEPTED
                \<and> length (filter (\<lambda>d. jd_asyncJobId d = length (asyncJobs w) + k) ?ds) = 1
           else aj_status (?js ! k) = FAILED
                \<and> aj_error (?js ! k) = Some EnqueueError
                \<and> filter (\<lambda>d. jd_asyncJobId d = length (asyncJobs w) + k) ?ds = [])"
  proof (intro allI impI)
    fix k assume "k < length ?js"
    then have k: "k < length ?dn" by simp
    then have nth: "?dn ! k = ws ! k" by (simp add: takeWhile_nth)
    have cnt: "length (filter (\<lambda>d. jd_asyncJobId d = length (asyncJobs w) + k) ?ds)
        = (if enqueuable E ?rts (ws ! k) then 1 else 0)"
      using entries_count[of "length (asyncJobs w) + k" E P ?rts "length (asyncJobs w)"
          "jobCounter ?q0" ?dn] k nth by simp
    show "aj_requestUrl (?js ! k) = url ?rts (fst (ws ! k)) (snd (ws ! k))
       \<and> (if enqueue_ok E (searchRequest ?rts (fst (ws ! k)) (snd (ws ! k)))
           then aj_status (?js ! k) = ACCEPTED
                \<and> length (filter (\<lambda>d. jd_asyncJobId d = length (asyncJobs w) + k) ?ds) = 1
           else aj_status (?js ! k) = FAILED
                \<and> aj_error (?js ! k) = Some EnqueueError
                \<and> filter (\<lambda>d. jd_asyncJobId d = length (asyncJobs w) + k) ?ds = [])"
    proof (cases "enqueuable E ?rts (ws ! k)")
      case True
      then show ?thesis using k nth cnt by (simp add: job_of_def enqueuable_def)
    next
      case False
      then have "filter (\<lambda>d. jd_asyncJobId d = length (asyncJobs w) + k) ?ds = []"
        using cnt by simp
      then show ?thesis using False k nth by (simp add: job_of_def enqueuable_def)
    qed
  qed
  have q': "queueRegistry (snd (main n E P w)) ''ReindexQueue'' = Some ?q'"
    using ms(3) .
  have wq: "waiting ?q' = waiting ?q0 @ ?ds" by simp
  have "\<exists>q' js ds. queueRegistry (snd (main n E P w)) ''ReindexQueue'' = Some q'
          \<and> asyncJobs (snd (main n E P w)) = asyncJobs w @ js
          \<and> waiting q' = waiting (prepared_queue P q) @ ds
          \<and> length js \<le> length ws
          \<and> ((\<forall>u. create_ok E u) \<longrightarrow> length js = length ws)
          \<and> (\<forall>k<length js.
                aj_requestUrl (js ! k) = url ?rts (fst (ws ! k)) (snd (ws ! k))
                \<and> (if enqueue_ok E (searchRequest ?rts (fst (ws ! k)) (snd (ws ! k)))
                    then aj_status (js ! k) = ACCEPTED
                         \<and> length (filter (\<lambda>d. jd_asyncJobId d = length (asyncJobs w) + k) ds) = 1
                    else aj_status (js ! k) = FAILED
                         \<and> aj_error (js ! k) = Some EnqueueError
                         \<and> filter (\<lambda>d. jd_asyncJobId d = length (asyncJobs w) + k) ds = []))"
    apply (rule exI[of _ ?q'])
    apply (rule exI[of _ ?js])
    apply (rule exI[of _ ?ds])
    apply (intro conjI q' ms(2) wq len len' each)
    done
  then show ?thesis using a b by blast
qed

theorem enqueue_failure_compensated_witness:
  "argv2 failing_env = Some ''Patient,Observation''
   \<and> loadConfig_ok failing_env \<and> initAppServices_ok failing_env
   \<and> queueRegistry example_world ''ReindexQueue'' = Some example_queue
   \<and> DO_ADD_JOBS (source_params\<lparr>DO_ADD_JOBS := True\<rparr>)
   \<and> windows 2 (intervalMinutes (source_params\<lparr>DO_ADD_JOBS := True\<rparr>))
        (beforeDate (source_params\<lparr>DO_ADD_JOBS := True\<rparr>))
        (startDate0 (source_params\<lparr>DO_ADD_JOBS := True\<rparr>)) None
       = Some [(Some 1744675200000, Some 1747267200000),
               (Some 1747267200000, Some 1748736000000)]
   \<and> \<not> enqueue_ok failing_env
        (searchRequest [''Patient'', ''Observation''] (Some 1744675200000) (Some 1747267200000))
   \<and> fst (main 2 failing_env (source_params\<lparr>DO_ADD_JOBS := True\<rparr>) example_world) = Resolved
   \<and> map aj_status
        (asyncJobs (snd (main 2 failing_env (source_params\<lparr>DO_ADD_JOBS := True\<rparr>) example_world)))
       = [ACCEPTED, FAILED, ACCEPTED]
   \<and> map_option (map jd_asyncJobId \<circ> waiting)
        (queueRegistry (snd (main 2 failing_env (source_params\<lparr>DO_ADD_JOBS := True\<rparr>)
           example_world)) ''ReindexQueue'')
       = Some [0, 2]
   \<and> fst (main 2 failing_env (source_params\<lparr>DO_ADD_JOBS := True\<rparr>) example_world)
       \<noteq> Rejected EnqueueError"
proof -
  let ?P = "source_params\<lparr>DO_ADD_JOBS := True\<rparr>"
  have h1: "argv2 failing_env = Some ''Patient,Observation''"
    by (simp add: failing_env_def example_env_def)
  have h2: "loadConfig_ok failing_env" by (simp add: failing_env_def example_env_def)
  have h3: "initAppServices_ok failing_env" by (simp add: failing_env_def example_env_def)
  have h4: "queueRegistry example_world ''ReindexQueue'' = Some example_queue"
    by (simp add: example_world_def)
  have h5: "DO_ADD_JOBS ?P" by simp
  have h6: "windows 2 (intervalMinutes ?P) (beforeDate ?P) (startDate0 ?P) None
       = Some [(Some 1744675200000, Some 1747267200000),
               (Some 1747267200000, Some 1748736000000)]"
    by code_simp
  have e0: "\<not> enqueue_ok failing_env
        (searchRequest [''Patient'', ''Observation''] (Some 1744675200000) (Some 1747267200000))"
    by code_simp
  have e1: "fst (main 2 failing_env ?P example_world) = Resolved" by code_simp
  have e2: "map aj_status (asyncJobs (snd (main 2 failing_env ?P example_world)))
       = [ACCEPTED, FAILED, ACCEPTED]"
    by code_simp
  have e3: "map_option (map jd_asyncJobId \<circ> waiting)
        (queueRegistry (snd (main 2 failing_env ?P example_world)) ''ReindexQueue'')
       = Some [0, 2]"
    by code_simp
  have c: "fst (main 2 failing_env ?P example_world) \<noteq> Rejected EnqueueError"
    using enqueue_failure_compensated[OF h1 h2 h3 h4 h5 h6] by blast
  show ?thesis
    by (intro conjI h1 h2 h3 h4 h5 h6 e0 e1 e2 e3 c)
qed

text \<open>
  C8. In a run with the submission gate on whose setup succeeds and whose loop ends, the
  entries appended to the queue carry, in order, the search requests of the windows
  whose Async Job was created and whose enqueue succeeded, in the order of the
  partition, and the start dates of these windows increase strictly.
\<close>

theorem enqueue_order:
  assumes "argv2 E = Some arg" and "loadConfig_ok E" and "initAppServices_ok E"
    and "queueRegistry w ''ReindexQueue'' = Some q"
    and "DO_ADD_JOBS P"
    and "windows n (intervalMinutes P) (beforeDate P) (startDate0 P) None = Some ws"
  shows "\<exists>q' ds sub. queueRegistry (snd (main n E P w)) ''ReindexQueue'' = Some q'
     \<and> waiting q' = waiting (prepared_queue P q) @ ds
     \<and> sub = filter (enqueuable E (split_comma arg)) (takeWhile (creatable E (split_comma arg)) ws)
     \<and> map jd_searchRequest ds = map (\<lambda>(a, b). searchRequest (split_comma arg) a b) sub
     \<and> sorted_wrt (\<lambda>p q. \<exists>x y. fst p = Some x \<and> fst q = Some y \<and> x < y) sub"
proof -
  let ?rts = "split_comma arg"
  let ?dn = "takeWhile (creatable E ?rts) ws"
  let ?sub = "filter (enqueuable E ?rts) ?dn"
  let ?q0 = "prepared_queue P q"
  let ?ds = "entries E P ?rts (length (asyncJobs w)) (jobCounter ?q0) ?dn"
  let ?q' = "?q0\<lparr>waiting := waiting ?q0 @ ?ds, jobCounter := jobCounter ?q0 + length ?ds\<rparr>"
  let ?R = "\<lambda>p q. \<exists>x y. fst p = Some x \<and> fst q = Some y \<and> (x::int) < y"
  note ms = main_submit[OF assms]
  have q': "queueRegistry (snd (main n E P w)) ''ReindexQueue'' = Some ?q'" using ms(3) .
  have wq: "waiting ?q' = waiting ?q0 @ ?ds" by simp
  have rq: "map jd_searchRequest ?ds = map (\<lambda>(a, b). searchRequest ?rts a b) ?sub"
    by (simp add: entries_requests case_prod_beta)
  have "sorted_wrt ?R ws" using windows_sorted[OF assms(6)] .
  then have "sorted_wrt ?R ?dn"
    using sorted_wrt_take[of ?R ws "length ?dn"] by (simp add: takeWhile_eq_take[symmetric])
  then have srt: "sorted_wrt ?R ?sub" by (rule sorted_wrt_filter)
  show ?thesis
    apply (rule exI[of _ ?q'])
    apply (rule exI[of _ ?ds])
    apply (rule exI[of _ ?sub])
    apply (intro conjI q' wq refl rq srt)
    done
qed

theorem enqueue_order_witness:
  "argv2 example_env = Some ''Patient,Observation''
   \<and> loadConfig_ok example_env \<and> initAppServices_ok example_env
   \<and> queueRegistry example_world ''ReindexQueue'' = Some example_queue
   \<and> DO_ADD_JOBS submit_params
   \<and> windows 2 (intervalMinutes submit_params) (beforeDate submit_params)
        (startDate0 submit_params) None
       = Some [(Some 1744675200000, Some 1747267200000),
               (Some 1747267200000, Some 1748736000000)]
   \<and> map_option (map (map f_value \<circ> filters \<circ> jd_searchRequest) \<circ> waiting)
        (queueRegistry (snd (main 2 example_env submit_params example_world)) ''ReindexQueue'')
       = Some [[],
               [''2025-04-15T00:00:00.000Z'', ''2025-05-15T00:00:00.000Z''],
               [''2025-05-15T00:00:00.000Z'', ''2025-06-01T00:00:00.000Z'']]
   \<and> (\<exists>q' ds sub.
         queueRegistry (snd (main 2 example_env submit_params example_world)) ''ReindexQueue''
           = Some q'
       \<and> waiting q' = waiting (prepared_queue submit_params example_queue) @ ds
       \<and> sub = filter (enqueuable example_env (split_comma ''Patient,Observation''))
                 (takeWhile (creatable example_env (split_comma ''Patient,Observation''))
                    [(Some 1744675200000, Some 1747267200000),
                     (Some 1747267200000, Some 1748736000000)])
       \<and> map jd_searchRequest ds
           = map (\<lambda>(a, b). searchRequest (split_comma ''Patient,Observation'') a b) sub
       \<and> sorted_wrt (\<lambda>p q. \<exists>x y. fst p = Some x \<and> fst q = Some y \<and> x < y) sub)"
proof -
  have h1: "argv2 example_env = Some ''Patient,Observation''" by (simp add: example_env_def)
  have h2: "loadConfig_ok example_env" by (simp add: example_env_def)
  have h3: "initAppServices_ok example_env" by (simp add: example_env_def)
  have h4: "queueRegistry example_world ''ReindexQueue'' = Some example_queue"
    by (simp add: example_world_def)
  have h5: "DO_ADD_JOBS submit_params" by (simp add: submit_params_def)
  have h6: "windows 2 (intervalMinutes submit_params) (beforeDate submit_params)
        (startDate0 submit_params) None
       = Some [(Some 1744675200000, Some 1747267200000),
               (Some 1747267200000, Some 1748736000000)]"
    by code_simp
  have ev: "map_option (map (map f_value \<circ> filters \<circ> jd_searchRequest) \<circ> waiting)
        (queueRegistry (snd (main 2 example_env submit_params example_world)) ''ReindexQueue'')
       = Some [[],
               [''2025-04-15T00:00:00.000Z'', ''2025-05-15T00:00:00.000Z''],
               [''2025-05-15T00:00:00.000Z'', ''2025-06-01T00:00:00.000Z'']]"
    by code_simp
  show ?thesis
    by (intro conjI h1 h2 h3 h4 h5 h6 ev enqueue_order[OF h1 h2 h3 h4 h5 h6])
qed

text \<open>
  C9. In a run with the submission gate on whose setup succeeds and whose loop ends, the
  search request of every entry appended to the queue has as its resource type the first
  of the comma-separated types only (the argument up to its first comma), while the
  entry itself lists all of them, and the request url of every Async Job created starts
  with the whole argument.
\<close>

theorem job_resource_types:
  assumes "argv2 E = Some arg" and "loadConfig_ok E" and "initAppServices_ok E"
    and "queueRegistry w ''ReindexQueue'' = Some q"
    and "DO_ADD_JOBS P"
    and "windows n (intervalMinutes P) (beforeDate P) (startDate0 P) None = Some ws"
  shows "\<exists>q' js ds t ts. queueRegistry (snd (main n E P w)) ''ReindexQueue'' = Some q'
     \<and> asyncJobs (snd (main n E P w)) = asyncJobs w @ js
     \<and> waiting q' = waiting (prepared_queue P q) @ ds
     \<and> split_comma arg = t # ts
     \<and> t = takeWhile (\<lambda>c. c \<noteq> CHR '','') arg
     \<and> (\<forall>d \<in> set ds. resourceType (jd_searchRequest d) = Some t
           \<and> jd_resourceTypes d = t # ts)
     \<and> (\<forall>j \<in> set js. \<exists>parts. aj_requestUrl j = arg @ ''?'' @ parts)"
proof -
  let ?rts = "split_comma arg"
  let ?dn = "takeWhile (creatable E ?rts) ws"
  let ?js = "map (job_of E ?rts) ?dn"
  let ?q0 = "prepared_queue P q"
  let ?ds = "entries E P ?rts (length (asyncJobs w)) (jobCounter ?q0) ?dn"
  let ?q' = "?q0\<lparr>waiting := waiting ?q0 @ ?ds, jobCounter := jobCounter ?q0 + length ?ds\<rparr>"
  note ms = main_submit[OF assms]
  obtain t ts where tts: "?rts = t # ts"
    using split_comma_nonempty[of arg] by (cases ?rts) auto
  have first: "t = takeWhile (\<lambda>c. c \<noteq> CHR '','') arg" using split_comma_first[OF tts] .
  have q': "queueRegistry (snd (main n E P w)) ''ReindexQueue'' = Some ?q'" using ms(3) .
  have wq: "waiting ?q' = waiting ?q0 @ ?ds" by simp
  have ds: "\<forall>d \<in> set ?ds. resourceType (jd_searchRequest d) = Some t
           \<and> jd_resourceTypes d = t # ts"
  proof
    fix d assume "d \<in> set ?ds"
    from entries_fields[OF this] show "resourceType (jd_searchRequest d) = Some t
           \<and> jd_resourceTypes d = t # ts"
      using tts by (auto simp: searchRequest_def)
  qed
  have js: "\<forall>j \<in> set ?js. \<exists>parts. aj_requestUrl j = arg @ ''?'' @ parts"
    by (auto simp: job_of_def url_def join_split_comma)
  show ?thesis
    apply (rule exI[of _ ?q'])
    apply (rule exI[of _ ?js])
    apply (rule exI[of _ ?ds])
    apply (rule exI[of _ t])
    apply (rule exI[of _ ts])
    apply (intro conjI q' ms(2) wq tts first ds js)
    done
qed

theorem job_resource_types_witness:
  "argv2 example_env = Some ''Patient,Observation''
   \<and> loadConfig_ok example_env \<and> initAppServices_ok example_env
   \<and> queueRegistry fresh_world ''ReindexQueue''
       = Some fresh_queue
   \<and> DO_ADD_JOBS submit_params
   \<and> windows 2 (intervalMinutes submit_params) (beforeDate submit_params)
        (startDate0 submit_params) None
       = Some [(Some 1744675200000, Some 1747267200000),
               (Some 1747267200000, Some 1748736000000)]
   \<and> map_option (map (\<lambda>d. (resourceType (jd_searchRequest d), jd_resourceTypes d)) \<circ> waiting)
        (queueRegistry (snd (main 2 example_env submit_params
           fresh_world)) ''ReindexQueue'')
       = Some [(Some ''Patient'', [''Patient'', ''Observation'']),
               (Some ''Patient'', [''Patient'', ''Observation''])]
   \<and> map (take 20 \<circ> aj_requestUrl)
        (asyncJobs (snd (main 2 example_env submit_params
           fresh_world)))
       = [''Patient,Observation?'', ''Patient,Observation?'']
   \<and> (\<exists>q' js ds t ts.
         queueRegistry (snd (main 2 example_env submit_params
           fresh_world)) ''ReindexQueue''
           = Some q'
       \<and> asyncJobs (snd (main 2 example_env submit_params
           fresh_world))
           = asyncJobs fresh_world @ js
       \<and> waiting q' = waiting (prepared_queue submit_params fresh_queue) @ ds
       \<and> split_comma ''Patient,Observation'' = t # ts
       \<and> t = takeWhile (\<lambda>c. c \<noteq> CHR '','') ''Patient,Observation''
       \<and> (\<forall>d \<in> set ds. resourceType (jd_searchRequest d) = Some t
             \<and> jd_resourceTypes d = t # ts)
       \<and> (\<forall>j \<in> set js. \<exists>parts. aj_requestUrl j = ''Patient,Observation'' @ ''?'' @ parts))"
proof -
  let ?w = "fresh_world"
  have h1: "argv2 example_env = Some ''Patient,Observation''" by (simp add: example_env_def)
  have h2: "loadConfig_ok example_env" by (simp add: example_env_def)
  have h3: "initAppServices_ok example_env" by (simp add: example_env_def)
  have h4: "queueRegistry ?w ''ReindexQueue'' = Some fresh_queue"
    by (simp add: fresh_world_def)
  have h5: "DO_ADD_JOBS submit_params" by (simp add: submit_params_def)
  have h6: "windows 2 (intervalMinutes submit_params) (beforeDate submit_params)
        (startDate0 submit_params) None
       = Some [(Some 1744675200000, Some 1747267200000),
               (Some 1747267200000, Some 1748736000000)]"
    by code_simp
  have e1: "map_option (map (\<lambda>d. (resourceType (jd_searchRequest d), jd_resourceTypes d)) \<circ> waiting)
        (queueRegistry (snd (main 2 example_env submit_params ?w)) ''ReindexQueue'')
       = Some [(Some ''Patient'', [''Patient'', ''Observation'']),
               (Some ''Patient'', [''Patient'', ''Observation''])]"
    by code_simp
  have e2: "map (take 20 \<circ> aj_requestUrl)
        (asyncJobs (snd (main 2 example_env submit_params ?w)))
       = [''Patient,Observation?'', ''Patient,Observation?'']"
    by code_simp
  show ?thesis
    by (intro conjI h1 h2 h3 h4 h5 h6 e1 e2 job_resource_types[OF h1 h2 h3 h4 h5 h6])
qed



section \<open>Properties of the seeding\<close>

lemma isSeeded_iff:
  "isSeeded st \<noteq> None \<longleftrightarrow> (\<exists>r \<in> set (resources st). r_resourceType r = ''User'')"
  by (auto simp: isSeeded_def searchOne_def find_None_iff)

lemma createResource_keeps:
  "createResource S r st = (r', st') \<Longrightarrow>
   (r_resourceType r = ''User'' \<or> (\<exists>x \<in> set (resources st). r_resourceType x = ''User'')) \<Longrightarrow>
   \<exists>x \<in> set (resources st'). r_resourceType x = ''User''"
  by (auto simp: createResource_def Let_def)

lemma updateResource_keeps:
  "updateResource r st = (r', st') \<Longrightarrow>
   \<exists>x \<in> set (resources st). r_resourceType x = ''User'' \<Longrightarrow>
   r_resourceType r \<noteq> ''User'' \<Longrightarrow>
   \<exists>x \<in> set (resources st'). r_resourceType x = ''User''"
  by (auto simp: updateResource_def same_resource_def split: if_splits)

lemma createSuperAdmin_user:
  "\<exists>x \<in> set (resources (createSuperAdmin S st)). r_resourceType x = ''User''"
  unfolding createSuperAdmin_def Let_def
  by (auto split: prod.splits dest!: createResource_keeps updateResource_keeps)

lemma rebuild_keeps:
  "keeps_users step \<Longrightarrow> rebuild a b step st = (Inr u, st') \<Longrightarrow>
   \<exists>x \<in> set (resources st). r_resourceType x = ''User'' \<Longrightarrow>
   \<exists>x \<in> set (resources st'). r_resourceType x = ''User''"
  unfolding keeps_users_def rebuild_def Let_def info_def
  by (fastforce split: sum.splits)

lemma seedDatabase_seeds:
  assumes "keeps_users (rebuildR4StructureDefinitions S)"
    and "keeps_users (rebuildR4ValueSets S)"
    and "keeps_users (rebuildR4SearchParameters S)"
    and "seedDatabase S st = (Inr u, st')"
  shows "\<exists>x \<in> set (resources st'). r_resourceType x = ''User''"
proof (cases "isSeeded st \<noteq> None")
  case True
  then have "\<exists>x \<in> set (resources st). r_resourceType x = ''User''"
    unfolding isSeeded_iff .
  moreover have "resources st' = resources st" using True assms(4)
    by (auto simp: seedDatabase_def info_def split: if_splits)
  ultimately show ?thesis by simp
next
  case False
  let ?a = "createSuperAdmin S st"
  from False assms(4) have c: "connect_ok S"
    by (auto simp: seedDatabase_def split: if_splits)
  obtain r1 s1 where 1: "rebuild ''Building structure definitions...''
      ''Finished building structure definitions'' (rebuildR4StructureDefinitions S) ?a = (r1, s1)"
    by (cases "rebuild ''Building structure definitions...''
      ''Finished building structure definitions'' (rebuildR4StructureDefinitions S) ?a")
  obtain r2 s2 where 2: "rebuild ''Building value sets...'' ''Finished building value sets''
      (rebuildR4ValueSets S) s1 = (r2, s2)"
    by (cases "rebuild ''Building value sets...'' ''Finished building value sets''
      (rebuildR4ValueSets S) s1")
  obtain r3 s3 where 3: "rebuild ''Building search parameters...''
      ''Finished building search parameters'' (rebuildR4SearchParameters S) s2 = (r3, s3)"
    by (cases "rebuild ''Building search parameters...''
      ''Finished building search parameters'' (rebuildR4SearchParameters S) s2")
  from False c assms(4) 1 2 3 have ok: "r1 = Inr ()" "r2 = Inr ()" "r3 = Inr ()" "st' = s3"
    by (auto simp: seedDatabase_def withTransaction_def split: sum.splits prod.splits)
  have "\<exists>x \<in> set (resources s1). r_resourceType x = ''User''"
    using rebuild_keeps[OF assms(1) 1[unfolded ok] createSuperAdmin_user] .
  then have "\<exists>x \<in> set (resources s2). r_resourceType x = ''User''"
    using rebuild_keeps[OF assms(2) 2[unfolded ok]] by blast
  then have "\<exists>x \<in> set (resources s3). r_resourceType x = ''User''"
    using rebuild_keeps[OF assms(3) 3[unfolded ok]] by blast
  then show ?thesis using ok by simp
qed

text \<open>
  A first call that succeeds leaves a user behind, provided the rebuilding steps remove
  none, so that the next call finds the database seeded.
\<close>

lemma seedDatabase_twice:
  assumes "keeps_users (rebuildR4StructureDefinitions S)"
    and "keeps_users (rebuildR4ValueSets S)"
    and "keeps_users (rebuildR4SearchParameters S)"
    and "seedDatabase S st = (Inr u, st')"
  shows "resources (snd (seedDatabase S st')) = resources st'"
proof -
  have "isSeeded st' \<noteq> None"
    unfolding isSeeded_iff using seedDatabase_seeds[OF assms] .
  then show ?thesis by (simp add: seedDatabase_def info_def)
qed

text \<open>
  C10. When the database already holds a resource of type \<^verbatim>\<open>User\<close>, a call of
  \<^verbatim>\<open>seedDatabase\<close> leaves the resources as they are; with a connection it returns at once,
  having only logged \<^verbatim>\<open>Already seeded\<close>; and a second call again leaves the resources as
  they are.
\<close>

theorem seedDatabase_seeded_noop:
  assumes "\<exists>r \<in> set (resources st). r_resourceType r = ''User''"
  shows "resources (snd (seedDatabase S st)) = resources st
     \<and> (connect_ok S \<longrightarrow>
          seedDatabase S st = (Inr (), st\<lparr>logged := logged st @ [''Already seeded'']\<rparr>))
     \<and> resources (snd (seedDatabase S (snd (seedDatabase S st)))) = resources st"
proof -
  have s: "isSeeded st \<noteq> None" using assms isSeeded_iff by blast
  have one: "\<And>st'. isSeeded st' \<noteq> None \<Longrightarrow>
      seedDatabase S st' = (if connect_ok S then (Inr (), info ''Already seeded'' st')
                            else (Inl ConnectError, st'))"
    by (simp add: seedDatabase_def)
  have s': "isSeeded (snd (seedDatabase S st)) \<noteq> None"
    unfolding isSeeded_iff using s assms by (simp add: one info_def)
  show ?thesis using s s' by (simp add: one info_def)
qed

theorem seedDatabase_seeded_noop_witness:
  "(\<exists>r \<in> set (resources seeded_repo). r_resourceType r = ''User'')
   \<and> connect_ok example_seed_env
   \<and> seedDatabase example_seed_env seeded_repo
       = (Inr (), seeded_repo\<lparr>logged := logged seeded_repo @ [''Already seeded'']\<rparr>)
   \<and> resources (snd (seedDatabase example_seed_env seeded_repo)) = resources seeded_repo
   \<and> resources (snd (seedDatabase example_seed_env
        (snd (seedDatabase example_seed_env seeded_repo)))) = resources seeded_repo
   \<and> map r_resourceType (resources (snd (seedDatabase example_seed_env empty_repo)))
       = [''User'', ''Project'', ''Project'', ''Practitioner'', ''ProjectMembership'']"
proof -
  have h: "\<exists>r \<in> set (resources seeded_repo). r_resourceType r = ''User''"
    by (simp add: seeded_repo_def)
  have ok: "connect_ok example_seed_env" by (simp add: example_seed_env_def)
  note c = seedDatabase_seeded_noop[OF h, of example_seed_env]
  have c1: "seedDatabase example_seed_env seeded_repo
       = (Inr (), seeded_repo\<lparr>logged := logged seeded_repo @ [''Already seeded'']\<rparr>)"
    using c ok by blast
  have c2: "resources (snd (seedDatabase example_seed_env seeded_repo)) = resources seeded_repo"
    using c by blast
  have c3: "resources (snd (seedDatabase example_seed_env
        (snd (seedDatabase example_seed_env seeded_repo)))) = resources seeded_repo"
    using c by blast
  have ev: "map r_resourceType (resources (snd (seedDatabase example_seed_env empty_repo)))
       = [''User'', ''Project'', ''Project'', ''Practitioner'', ''ProjectMembership'']"
    by code_simp
  show ?thesis
    by (intro conjI h ok c1 c2 c3 ev)
qed

end
